theory Spec2Isabelle
  imports Main "HOL-Library.AList"
begin

section \<open>JavaScript values\<close>

text \<open>
  The values a form field can hold (src/src/InertiaForm.js stores whatever the caller
  assigns).  A primitive is its value; a file, an array and a plain object carry the
  reference of the object they denote (the \<open>nat\<close>), so that \<open>===\<close> on two values is
  equality of the model values: two arrays with equal elements and different references
  are different values, as they are for \<open>!==\<close>.  Numbers are integers here (no NaN), an
  array is dense, and the properties of a plain object are listed in the order
  \<open>for ... in\<close> visits them.
\<close>

datatype jsval =
    JUndefined
  | JNull
  | JBool bool
  | JNum int
  | JStr string
  | JFile nat
  | JArr nat "jsval list"
  | JObj nat "(string \<times> jsval) list"

text \<open>A plain object (\<open>{}\<close>): its own enumerable properties in iteration order.\<close>

type_synonym object = "(string \<times> jsval) list"

text \<open>The property read \<open>object[key]\<close>: \<open>undefined\<close> when the key is absent.\<close>

definition get_prop :: "object \<Rightarrow> string \<Rightarrow> jsval" where
  "get_prop object key = (case map_of object key of None \<Rightarrow> JUndefined | Some v \<Rightarrow> v)"

datatype js_error =
    ReservedFieldName string
  | InvalidRequestType string
  | TypeError

text \<open>
  A method that can throw returns the error thrown, if any, together with the state the
  throw leaves behind: what was assigned before the throw stays assigned.
\<close>

type_synonym 'w outcome = "js_error option \<times> 'w"

section \<open>The helpers imported from ./util\<close>

text \<open>
  Modelled from the spec: \<open>reservedFieldNames\<close> of src/src/util is not among the sources.
  The spec (section 3) lists the reserved names as \<open>processing\<close>, \<open>successful\<close>,
  \<open>recentlySuccessful\<close>, \<open>isDirty\<close>, \<open>initial\<close> and the internal option and collaborator
  slots, which InertiaForm.js names \<open>__options\<close>, \<open>__inertia\<close> and \<open>__page\<close>.
\<close>

definition reservedFieldNames :: "string list" where
  "reservedFieldNames =
     [''processing'', ''successful'', ''recentlySuccessful'', ''isDirty'', ''initial'',
      ''__options'', ''__inertia'', ''__page'']"

text \<open>
  Modelled from the spec: \<open>guardAgainstReservedFieldName\<close> of src/src/util is not among the
  sources.  The spec (sections 4.1 and 7): a reserved name used as a field name is a
  fatal configuration error, thrown synchronously.
\<close>

definition guardAgainstReservedFieldName :: "string \<Rightarrow> js_error option" where
  "guardAgainstReservedFieldName fieldName =
     (if fieldName \<in> set reservedFieldNames then Some (ReservedFieldName fieldName) else None)"

text \<open>
  Modelled from the spec: \<open>isFile\<close> of src/src/util is not among the sources.  The spec
  (section 4.2) calls it the file/blob predicate on a value; here it holds of the values
  built with \<open>JFile\<close>.
\<close>

definition isFile :: "jsval \<Rightarrow> bool" where
  "isFile object = (case object of JFile _ \<Rightarrow> True | _ \<Rightarrow> False)"

text \<open>
  Modelled from the spec: \<open>merge\<close> of src/src/util is not among the sources.  The spec
  (section 4.1, \<open>reset()\<close>): it overwrites every value of the target with the value the
  source object stores under the same key.  \<open>merge a b\<close> is \<open>merge(a, b)\<close> for a plain
  object \<open>a\<close>, returning the updated \<open>a\<close>.
\<close>

definition merge :: "object \<Rightarrow> object \<Rightarrow> object" where
  "merge a b = fold (\<lambda>(key, v) a. AList.update key v a) b a"

section \<open>The form\<close>

text \<open>The \<open>__options\<close> slot.\<close>

record options =
  bag :: string
  resetOnSuccess :: bool
  setInitialOnSuccess :: bool

text \<open>
  The argument of \<open>withOptions\<close>: an object on which each of the three keys is present
  (\<open>hasOwnProperty\<close>) or not.
\<close>

record partial_options =
  opt_bag :: "string option"
  opt_resetOnSuccess :: "bool option"
  opt_setInitialOnSuccess :: "bool option"

text \<open>
  The target object of class \<open>InertiaForm\<close>: the four flags, the \<open>initial\<close> snapshot,
  the \<open>__options\<close> slot, and in \<open>field_values\<close> the own properties that hold the user's fields.
  The collaborators \<open>__inertia\<close> and \<open>__page\<close> are not state of the form: the page that
  \<open>__page()\<close> returns is an argument of the methods that read it, and the calls made on
  \<open>__inertia\<close> are logged in the environment below.
\<close>

record form =
  processing :: bool
  successful :: bool
  recentlySuccessful :: bool
  isDirty :: bool
  initial :: object
  field_values :: object
  options :: options

text \<open>
  The \<open>set\<close> trap of the Proxy (lines 22-32).  Every caller of this module holds the
  Proxy, so \<open>this\<close> is the Proxy in every method and every assignment \<open>this[prop] = value\<close>
  runs the trap: \<open>assign\<close> is the assignment \<open>obj[prop] = value\<close> on the target.
\<close>

definition proxy_set ::
  "string \<Rightarrow> jsval \<Rightarrow> ('a form_scheme \<Rightarrow> 'a form_scheme) \<Rightarrow> 'a form_scheme \<Rightarrow> 'a form_scheme"
where
  "proxy_set prop val assign obj =
     (let obj' = assign obj in
      if prop \<notin> set reservedFieldNames \<and> val \<noteq> get_prop (initial obj') prop
      then obj'\<lparr>isDirty := True\<rparr>
      else obj')"

text \<open>
  The trap when the value assigned is an object the assignment itself creates
  (\<open>this.initial = {}\<close>, \<open>this.__options = {...}\<close>): a new object is identical to no
  stored value, so \<open>value !== obj.initial[prop]\<close> is true.
\<close>

definition proxy_set_new ::
  "string \<Rightarrow> ('a form_scheme \<Rightarrow> 'a form_scheme) \<Rightarrow> 'a form_scheme \<Rightarrow> 'a form_scheme"
where
  "proxy_set_new prop assign obj =
     (let obj' = assign obj in
      if prop \<notin> set reservedFieldNames
      then obj'\<lparr>isDirty := True\<rparr>
      else obj')"

text \<open>
  \<open>form[prop] = value\<close> for a field name \<open>prop\<close>: the write of a user field.  A write to
  one of the slots of the record is one of the assignments below.
\<close>

definition set_field :: "string \<Rightarrow> jsval \<Rightarrow> 'a form_scheme \<Rightarrow> 'a form_scheme" where
  "set_field prop val =
     proxy_set prop val (\<lambda>obj. obj\<lparr>field_values := AList.update prop val (field_values obj)\<rparr>)"

definition set_processing :: "bool \<Rightarrow> 'a form_scheme \<Rightarrow> 'a form_scheme" where
  "set_processing b = proxy_set ''processing'' (JBool b) (\<lambda>obj. obj\<lparr>processing := b\<rparr>)"

definition set_successful :: "bool \<Rightarrow> 'a form_scheme \<Rightarrow> 'a form_scheme" where
  "set_successful b = proxy_set ''successful'' (JBool b) (\<lambda>obj. obj\<lparr>successful := b\<rparr>)"

definition set_recentlySuccessful :: "bool \<Rightarrow> 'a form_scheme \<Rightarrow> 'a form_scheme" where
  "set_recentlySuccessful b =
     proxy_set ''recentlySuccessful'' (JBool b) (\<lambda>obj. obj\<lparr>recentlySuccessful := b\<rparr>)"

definition set_isDirty :: "bool \<Rightarrow> 'a form_scheme \<Rightarrow> 'a form_scheme" where
  "set_isDirty b = proxy_set ''isDirty'' (JBool b) (\<lambda>obj. obj\<lparr>isDirty := b\<rparr>)"

text \<open>
  Modelled from the spec: \<open>merge\<close> again, for \<open>merge(this, b)\<close>, whose target is the form:
  each assignment \<open>this[key] = b[key]\<close> is a field write through the trap.
\<close>

definition merge_form :: "'a form_scheme \<Rightarrow> object \<Rightarrow> 'a form_scheme" where
  "merge_form a b = fold (\<lambda>(key, v) a. set_field key v a) b a"

text \<open>\<open>setInitialValues\<close> (lines 115-119).\<close>

definition setInitialValues :: "object \<Rightarrow> 'a form_scheme \<Rightarrow> 'a form_scheme" where
  "setInitialValues vals obj =
     (let obj1 = proxy_set_new ''initial'' (\<lambda>obj. obj\<lparr>initial := []\<rparr>) obj
      in obj1\<lparr>initial := merge (initial obj1) vals\<rparr>)"

text \<open>
  \<open>withData\<close> (lines 39-61).  Its argument is an array of field names or an object of
  field values; the loop of lines 52-56 stops at the first reserved name, where the
  guard throws.
\<close>

datatype form_data = Names "string list" | Values object

fun withData_loop :: "object \<Rightarrow> 'a form_scheme \<Rightarrow> 'a form_scheme outcome" where
  "withData_loop [] obj = (None, obj)"
| "withData_loop ((field, v) # rest) obj =
     (case guardAgainstReservedFieldName field of
        Some e \<Rightarrow> (Some e, obj)
      | None \<Rightarrow> withData_loop rest (set_field field v obj))"

definition withData :: "form_data \<Rightarrow> 'a form_scheme \<Rightarrow> 'a form_scheme outcome" where
  "withData d obj =
     (let data =
            (case d of
               Names elements \<Rightarrow>
                 fold (\<lambda>element carry. AList.update element (JStr []) carry) elements []
             | Values vals \<Rightarrow> vals);
          obj1 = setInitialValues data obj;
          obj2 = set_processing False obj1;
          obj3 = set_successful False obj2
      in case withData_loop data obj3 of
           (Some e, obj4) \<Rightarrow> (Some e, obj4)
         | (None, obj4) \<Rightarrow> (None, set_isDirty False obj4))"

text \<open>\<open>withOptions\<close> (lines 63-83).\<close>

definition withOptions :: "partial_options \<Rightarrow> 'a form_scheme \<Rightarrow> 'a form_scheme" where
  "withOptions opts obj =
     (let obj1 = proxy_set_new ''__options''
            (\<lambda>obj. obj\<lparr>options :=
               \<lparr>bag = ''default'', resetOnSuccess = True, setInitialOnSuccess = False\<rparr>\<rparr>) obj;
          obj2 = (case opt_bag opts of
                    Some b \<Rightarrow> obj1\<lparr>options := (options obj1)\<lparr>bag := b\<rparr>\<rparr>
                  | None \<Rightarrow> obj1);
          obj3 = (case opt_resetOnSuccess opts of
                    Some b \<Rightarrow> obj2\<lparr>options := (options obj2)\<lparr>resetOnSuccess := b\<rparr>\<rparr>
                  | None \<Rightarrow> obj2)
      in (case opt_setInitialOnSuccess opts of
            Some b \<Rightarrow> obj3\<lparr>options := (options obj3)\<lparr>setInitialOnSuccess := b\<rparr>\<rparr>
          | None \<Rightarrow> obj3))"

text \<open>\<open>data\<close> (lines 97-107).\<close>

definition data :: "'a form_scheme \<Rightarrow> object" where
  "data obj =
     fold (\<lambda>property d. AList.update property (get_prop (field_values obj) property) d)
       (map fst (initial obj))
       [(''_error_bag'', JStr (bag (options obj)))]"

text \<open>\<open>reset\<close> (lines 109-113).\<close>

definition reset :: "'a form_scheme \<Rightarrow> 'a form_scheme" where
  "reset obj = set_isDirty False (merge_form obj (initial obj))"

text \<open>
  \<open>hasFilesDeep\<close> (lines 185-209).  It returns a boolean or throws: \<open>Inl\<close> is the error
  thrown.  \<open>hasFilesDeep_props\<close> and \<open>hasFilesDeep_elems\<close> are the loop of lines 191-197
  over the own properties of an object and of an array; the loop of lines 201-205 returns
  at the first element of an array.  A file is an object without own enumerable
  properties.  The test \<open>object.hasOwnProperty(key)\<close> of lines 192 and 202 calls what the
  object itself stores under \<open>hasOwnProperty\<close> when it has such a property of its own;
  no value of \<open>jsval\<close> is a function, so the call is then a TypeError, at the first key
  visited (\<open>shadowed\<close>).  Otherwise it is the method of \<open>Object.prototype\<close>, true of
  every key the loop visits.
\<close>

fun hasFilesDeep :: "jsval \<Rightarrow> js_error + bool"
  and hasFilesDeep_elems :: "jsval list \<Rightarrow> js_error + bool"
  and hasFilesDeep_props :: "bool \<Rightarrow> (string \<times> jsval) list \<Rightarrow> js_error + bool"
where
  "hasFilesDeep JNull = Inr False"
| "hasFilesDeep (JObj r ps) =
     (case hasFilesDeep_props (''hasOwnProperty'' \<in> set (map fst ps)) ps of
        Inl e \<Rightarrow> Inl e
      | Inr found \<Rightarrow> if found then Inr True else Inr (isFile (JObj r ps)))"
| "hasFilesDeep (JArr r xs) =
     (case hasFilesDeep_elems xs of
        Inl e \<Rightarrow> Inl e
      | Inr found \<Rightarrow>
          if found then Inr True
          else (case xs of [] \<Rightarrow> Inr (isFile (JArr r xs)) | x # _ \<Rightarrow> hasFilesDeep x))"
| "hasFilesDeep object = Inr (isFile object)"
| "hasFilesDeep_elems [] = Inr False"
| "hasFilesDeep_elems (x # xs) =
     (case hasFilesDeep x of
        Inl e \<Rightarrow> Inl e
      | Inr found \<Rightarrow> if found then Inr True else hasFilesDeep_elems xs)"
| "hasFilesDeep_props shadowed [] = Inr False"
| "hasFilesDeep_props shadowed ((key, x) # ps) =
     (if shadowed then Inl TypeError
      else (case hasFilesDeep x of
              Inl e \<Rightarrow> Inl e
            | Inr found \<Rightarrow> if found then Inr True else hasFilesDeep_props shadowed ps))"

text \<open>\<open>hasFiles\<close> (lines 175-183): the loop over the keys of \<open>initial\<close>.\<close>

fun hasFiles_loop :: "string list \<Rightarrow> 'a form_scheme \<Rightarrow> js_error + bool" where
  "hasFiles_loop [] obj = Inr False"
| "hasFiles_loop (property # rest) obj =
     (case hasFilesDeep (get_prop (field_values obj) property) of
        Inl e \<Rightarrow> Inl e
      | Inr found \<Rightarrow> if found then Inr True else hasFiles_loop rest obj)"

definition hasFiles :: "'a form_scheme \<Rightarrow> js_error + bool" where
  "hasFiles obj = hasFiles_loop (map fst (initial obj)) obj"



section \<open>The page and the error accessors\<close>

text \<open>
  The page props that \<open>__page()\<close> returns: \<open>errorBags\<close> maps a bag name to a bag, a bag
  maps a field name to its messages; both in iteration order.
\<close>

record page =
  errorBags :: "(string \<times> (string \<times> string list) list) list"

text \<open>\<open>hasErrors\<close> (lines 231-234), as the truth value of what it returns.\<close>

definition hasErrors :: "page \<Rightarrow> 'a form_scheme \<Rightarrow> bool" where
  "hasErrors pg obj =
     (case map_of (errorBags pg) (bag (options obj)) of
        None \<Rightarrow> False
      | Some b \<Rightarrow> length (map fst b) > 0)"

text \<open>\<open>error\<close> (lines 236-244): \<open>None\<close> is the \<open>undefined\<close> of the bare \<open>return\<close>.\<close>

definition error :: "page \<Rightarrow> 'a form_scheme \<Rightarrow> string \<Rightarrow> string option" where
  "error pg obj field =
     (if \<not> hasErrors pg obj then None
      else (case map_of (errorBags pg) (bag (options obj)) of
              None \<Rightarrow> None
            | Some b \<Rightarrow>
                (case map_of b field of
                   None \<Rightarrow> None
                 | Some [] \<Rightarrow> None
                 | Some (m # _) \<Rightarrow> Some m)))"

text \<open>
  \<open>errors\<close> (lines 246-257): the argument \<open>None\<close> is the default \<open>null\<close>.  The test
  \<open>this.error(field) ? ... : []\<close> is the truthiness of the first message: \<open>undefined\<close> and
  the empty string are falsy.
\<close>

definition errors :: "page \<Rightarrow> 'a form_scheme \<Rightarrow> string option \<Rightarrow> string list" where
  "errors pg obj field =
     (case field of
        None \<Rightarrow>
          (if hasErrors pg obj
           then (case map_of (errorBags pg) (bag (options obj)) of
                   None \<Rightarrow> []
                 | Some b \<Rightarrow> fold (\<lambda>b a. a @ b) (map snd b) [])
           else [])
      | Some f \<Rightarrow>
          (case error pg obj f of
             None \<Rightarrow> []
           | Some m \<Rightarrow>
               (if m \<noteq> []
                then (case map_of (errorBags pg) (bag (options obj)) of
                        None \<Rightarrow> []
                      | Some b \<Rightarrow> (case map_of b f of None \<Rightarrow> [] | Some ms \<Rightarrow> ms))
                else [])))"

section \<open>Submission\<close>

text \<open>
  The environment of a form: the timers it has scheduled with \<open>setTimeout\<close> (delay in
  milliseconds and callback), the submissions handed to \<open>grecaptcha.ready\<close> and waiting
  for their token (request type and url), and the calls made on the navigation client.
  \<open>grecaptcha\<close> says whether \<open>window.grecaptcha\<close> is defined.
\<close>

datatype timer_callback = ClearRecentlySuccessful

datatype payload = NoPayload | Plain object | FormData object

record request =
  request_type :: string
  request_url :: string
  request_payload :: payload

record world = form +
  grecaptcha :: bool
  timers :: "(nat \<times> timer_callback) list"
  awaiting :: "(string \<times> string) list"
  sent :: "request list"

text \<open>\<open>__validateRequestType\<close> (lines 263-272).\<close>

definition requestTypes :: "string list" where
  "requestTypes = [''get'', ''post'', ''put'', ''patch'', ''delete'']"

definition validateRequestType :: "string \<Rightarrow> js_error option" where
  "validateRequestType requestType =
     (if requestType \<notin> set requestTypes then Some (InvalidRequestType requestType) else None)"

text \<open>
  \<open>submit\<close> (lines 137-173), up to the call of \<open>grecaptcha.ready\<close>, where the submission
  waits for its token; \<open>grecaptcha.ready\<close> on an undefined \<open>grecaptcha\<close> is a TypeError.
\<close>

definition submit :: "string \<Rightarrow> string \<Rightarrow> world \<Rightarrow> world outcome" where
  "submit requestType url w =
     (case validateRequestType requestType of
        Some e \<Rightarrow> (Some e, w)
      | None \<Rightarrow>
          (let w1 = set_processing True w;
               w2 = set_successful False w1
           in if grecaptcha w2
              then (None, w2\<lparr>awaiting := awaiting w2 @ [(requestType, url)]\<rparr>)
              else (Some TypeError, w2)))"

definition post :: "string \<Rightarrow> world \<Rightarrow> world outcome" where
  "post url = submit ''post'' url"

definition put :: "string \<Rightarrow> world \<Rightarrow> world outcome" where
  "put url = submit ''put'' url"

definition patch :: "string \<Rightarrow> world \<Rightarrow> world outcome" where
  "patch url = submit ''patch'' url"

definition delete_request :: "string \<Rightarrow> world \<Rightarrow> world outcome" where
  "delete_request url = submit ''delete'' url"

text \<open>
  The continuation of lines 162-171, run with the token: the call on the navigation
  client, which is not made when \<open>hasFiles\<close> throws.  Modelled from the spec:
  \<open>objectToFormData\<close> of src/src/util is not among the sources; the spec (section 4.2)
  says it encodes the data as multipart form data, which is the constructor \<open>FormData\<close>
  here.
\<close>

definition send :: "string \<Rightarrow> string \<Rightarrow> string \<Rightarrow> world \<Rightarrow> world outcome" where
  "send requestType url token w =
     (let d = AList.update ''token'' (JStr token) (data w)
      in if requestType = ''delete''
         then (None, w\<lparr>sent := sent w @
                [\<lparr>request_type = requestType, request_url = url,
                  request_payload = NoPayload\<rparr>]\<rparr>)
         else (case hasFiles w of
                 Inl e \<Rightarrow> (Some e, w)
               | Inr files \<Rightarrow>
                   (None, w\<lparr>sent := sent w @
                      [\<lparr>request_type = requestType, request_url = url,
                        request_payload = (if files then FormData d else Plain d)\<rparr>]\<rparr>)))"

text \<open>The token arrives for the submission that has waited longest.\<close>

definition token_resolved :: "string \<Rightarrow> world \<Rightarrow> world outcome" where
  "token_resolved token w =
     (case awaiting w of
        [] \<Rightarrow> (None, w)
      | (requestType, url) # rest \<Rightarrow> send requestType url token (w\<lparr>awaiting := rest\<rparr>))"

text \<open>\<open>onSuccess\<close> (lines 211-224) and \<open>onFail\<close> (lines 226-229).\<close>

definition onSuccess :: "world \<Rightarrow> world" where
  "onSuccess w =
     (let w1 = set_successful True w;
          w2 = set_recentlySuccessful True w1;
          w3 = w2\<lparr>timers := timers w2 @ [(2000, ClearRecentlySuccessful)]\<rparr>
      in if resetOnSuccess (options w3) then reset w3
         else if setInitialOnSuccess (options w3)
         then set_isDirty False
                (setInitialValues (filter (\<lambda>(key, v). key \<noteq> ''_error_bag'') (data w3)) w3)
         else w3)"

definition onFail :: "'a form_scheme \<Rightarrow> 'a form_scheme" where
  "onFail obj = set_recentlySuccessful False (set_successful False obj)"

text \<open>The callback of line 215, run by the timer.\<close>

fun run_timer :: "timer_callback \<Rightarrow> 'a form_scheme \<Rightarrow> 'a form_scheme" where
  "run_timer ClearRecentlySuccessful obj = set_recentlySuccessful False obj"

text \<open>
  The \<open>onSuccess\<close> closure of \<open>submit\<close> (lines 143-155), which the navigation client calls
  once the round trip is complete; \<open>pg\<close> is the page that \<open>__page()\<close> returns then.
  \<open>handle_response\<close> is lines 144-150, the form's own bookkeeping.  \<open>submit_onSuccess\<close>
  is the whole closure: \<open>opts\<close> is the \<open>options\<close> argument of \<open>submit\<close>, \<open>None\<close> when it is
  \<open>undefined\<close> (\<open>delete(url)\<close>, \<open>submit(type, url)\<close>), where reading \<open>options.onSuccess\<close> is
  a TypeError, and otherwise the caller's \<open>onSuccess\<close> callback if it has one.
\<close>

definition handle_response :: "page \<Rightarrow> world \<Rightarrow> world" where
  "handle_response pg w =
     (let w1 = set_processing False w
      in if \<not> hasErrors pg w1 then onSuccess w1 else onFail w1)"

definition submit_onSuccess ::
  "(page \<Rightarrow> world \<Rightarrow> world) option option \<Rightarrow> page \<Rightarrow> world \<Rightarrow> world outcome"
where
  "submit_onSuccess opts pg w =
     (let w1 = handle_response pg w
      in case opts of
           None \<Rightarrow> (Some TypeError, w1)
         | Some None \<Rightarrow> (None, w1)
         | Some (Some callback) \<Rightarrow> (None, callback pg w1))"

section \<open>Construction\<close>

text \<open>
  The constructor is called without arguments only (line 36; the class is not exported):
  \<open>data\<close> and \<open>options\<close> are \<open>{}\<close>, so lines 14-20 leave the four flags false, \<open>initial\<close>
  empty, no field, and the default options.  \<open>create\<close> is line 36.
\<close>

definition new_InertiaForm :: form where
  "new_InertiaForm =
     \<lparr>processing = False, successful = False, recentlySuccessful = False, isDirty = False,
      initial = [], field_values = [],
      options = \<lparr>bag = ''default'', resetOnSuccess = True, setInitialOnSuccess = False\<rparr>\<rparr>"

definition create :: "form_data \<Rightarrow> form outcome" where
  "create d = withData d new_InertiaForm"

text \<open>
  What \<open>withData\<close> establishes when it returns: the keys of \<open>initial\<close> are distinct (it is
  an object) and none is a reserved name (the guard of line 53).
\<close>

definition wf_form :: "'a form_scheme \<Rightarrow> bool" where
  "wf_form obj =
     (distinct (map fst (initial obj)) \<and>
      list_all (\<lambda>key. key \<notin> set reservedFieldNames) (map fst (initial obj)))"

text \<open>A sequence of field writes \<open>form[prop] = val\<close>, in order.\<close>

definition field_writes :: "(string \<times> jsval) list \<Rightarrow> 'a form_scheme \<Rightarrow> 'a form_scheme" where
  "field_writes ws obj = fold (\<lambda>(prop, val) obj. set_field prop val obj) ws obj"

section \<open>Example forms and pages\<close>

text \<open>The form that \<open>create({name: 'Ada', avatar: null})\<close> returns.\<close>

definition example_form :: form where
  "example_form =
     \<lparr>processing = False, successful = False, recentlySuccessful = False, isDirty = False,
      initial = [(''name'', JStr ''Ada''), (''avatar'', JNull)],
      field_values = [(''name'', JStr ''Ada''), (''avatar'', JNull)],
      options = \<lparr>bag = ''default'', resetOnSuccess = True, setInitialOnSuccess = False\<rparr>\<rparr>"


text \<open>The form that \<open>create({_error_bag: 'mine'})\<close> returns.\<close>

definition marker_form :: form where
  "marker_form =
     \<lparr>processing = False, successful = False, recentlySuccessful = False, isDirty = False,
      initial = [(''_error_bag'', JStr ''mine'')],
      field_values = [(''_error_bag'', JStr ''mine'')],
      options = \<lparr>bag = ''default'', resetOnSuccess = True, setInitialOnSuccess = False\<rparr>\<rparr>"

text \<open>
  The example form in its environment, in the middle of a submission: \<open>name\<close> has been
  edited, the request is under way.
\<close>

definition example_world :: world where
  "example_world =
     \<lparr>processing = True, successful = False, recentlySuccessful = False, isDirty = True,
      initial = [(''name'', JStr ''Ada''), (''avatar'', JNull)],
      field_values = [(''name'', JStr ''Bob''), (''avatar'', JNull)],
      options = \<lparr>bag = ''default'', resetOnSuccess = True, setInitialOnSuccess = False\<rparr>,
      grecaptcha = True, timers = [], awaiting = [], sent = []\<rparr>"

definition empty_bag_page :: page where
  "empty_bag_page = \<lparr>errorBags = [(''default'', [])]\<rparr>"

definition invalid_email_page :: page where
  "invalid_email_page = \<lparr>errorBags = [(''default'', [(''email'', [''Invalid''])])]\<rparr>"

definition blank_message_page :: page where
  "blank_message_page = \<lparr>errorBags = [(''default'', [(''email'', ['''', ''Invalid''])])]\<rparr>"

text \<open>
  A form whose field \<open>a\<close> holds \<open>{hasOwnProperty: 'x', f: file}\<close>: an object with a
  property \<open>hasOwnProperty\<close> of its own, and a file.
\<close>

definition shadowing_form :: form where
  "shadowing_form =
     \<lparr>processing = False, successful = False, recentlySuccessful = False, isDirty = True,
      initial = [(''a'', JNull)],
      field_values = [(''a'', JObj 5 [(''hasOwnProperty'', JStr ''x''), (''f'', JFile 6)])],
      options = \<lparr>bag = ''default'', resetOnSuccess = True, setInitialOnSuccess = False\<rparr>\<rparr>"

text \<open>The example world with \<open>resetOnSuccess\<close> switched off.\<close>

definition keeping_world :: world where
  "keeping_world =
     example_world\<lparr>options :=
       \<lparr>bag = ''default'', resetOnSuccess = False, setInitialOnSuccess = False\<rparr>\<rparr>"

section \<open>What the assignments do\<close>

lemma proxy_set_reserved:
  "prop \<in> set reservedFieldNames \<Longrightarrow> proxy_set prop val assign obj = assign obj"
  by (simp add: proxy_set_def Let_def)

lemma proxy_set_new_reserved:
  "prop \<in> set reservedFieldNames \<Longrightarrow> proxy_set_new prop assign obj = assign obj"
  by (simp add: proxy_set_new_def Let_def)

lemma reserved_slots:
  "''processing'' \<in> set reservedFieldNames"
  "''successful'' \<in> set reservedFieldNames"
  "''recentlySuccessful'' \<in> set reservedFieldNames"
  "''isDirty'' \<in> set reservedFieldNames"
  "''initial'' \<in> set reservedFieldNames"
  "''__options'' \<in> set reservedFieldNames"
  by (simp_all add: reservedFieldNames_def)

lemma set_processing_eq: "set_processing b obj = obj\<lparr>processing := b\<rparr>"
  by (simp add: set_processing_def proxy_set_reserved reserved_slots)

lemma set_successful_eq: "set_successful b obj = obj\<lparr>successful := b\<rparr>"
  by (simp add: set_successful_def proxy_set_reserved reserved_slots)

lemma set_recentlySuccessful_eq:
  "set_recentlySuccessful b obj = obj\<lparr>recentlySuccessful := b\<rparr>"
  by (simp add: set_recentlySuccessful_def proxy_set_reserved reserved_slots)

lemma set_isDirty_eq: "set_isDirty b obj = obj\<lparr>isDirty := b\<rparr>"
  by (simp add: set_isDirty_def proxy_set_reserved reserved_slots)

lemma set_field_eq:
  "set_field prop val obj =
     obj\<lparr>field_values := AList.update prop val (field_values obj),
         isDirty := isDirty obj \<or>
           (prop \<notin> set reservedFieldNames \<and> val \<noteq> get_prop (initial obj) prop)\<rparr>"
  by (cases "isDirty obj") (simp_all add: set_field_def proxy_set_def Let_def)

lemma merge_form_eq:
  "merge_form obj b =
     obj\<lparr>field_values := merge (field_values obj) b,
         isDirty := isDirty obj \<or>
           list_ex (\<lambda>(key, v). key \<notin> set reservedFieldNames \<and> v \<noteq> get_prop (initial obj) key) b\<rparr>"
proof (induction b arbitrary: obj)
  case Nil
  then show ?case by (simp add: merge_form_def merge_def)
next
  case (Cons p b)
  obtain key v where p: "p = (key, v)" by (cases p)
  have "merge_form obj (p # b) = merge_form (set_field key v obj) b"
    by (simp add: merge_form_def p)
  also have "\<dots> = obj\<lparr>field_values := merge (field_values obj) (p # b),
         isDirty := isDirty obj \<or>
           list_ex (\<lambda>(key, v). key \<notin> set reservedFieldNames \<and> v \<noteq> get_prop (initial obj) key) (p # b)\<rparr>"
    by (simp add: Cons.IH set_field_eq merge_def p)
  finally show ?case .
qed

lemma reset_eq:
  "reset obj = obj\<lparr>field_values := merge (field_values obj) (initial obj), isDirty := False\<rparr>"
  by (simp add: reset_def merge_form_eq set_isDirty_eq)

lemma setInitialValues_eq: "setInitialValues vals obj = obj\<lparr>initial := merge [] vals\<rparr>"
  by (simp add: setInitialValues_def proxy_set_new_reserved reserved_slots Let_def)

lemma onFail_eq: "onFail obj = obj\<lparr>successful := False, recentlySuccessful := False\<rparr>"
  by (simp add: onFail_def set_successful_eq set_recentlySuccessful_eq)

lemma onSuccess_eq:
  "onSuccess w =
     (let w3 = w\<lparr>successful := True, recentlySuccessful := True,
                  timers := timers w @ [(2000, ClearRecentlySuccessful)]\<rparr>
      in if resetOnSuccess (options w)
         then w3\<lparr>field_values := merge (field_values w) (initial w), isDirty := False\<rparr>
         else if setInitialOnSuccess (options w)
         then w3\<lparr>initial := merge [] (filter (\<lambda>(key, v). key \<noteq> ''_error_bag'') (data w)),
                 isDirty := False\<rparr>
         else w3)"
  by (simp add: onSuccess_def set_successful_eq set_recentlySuccessful_eq reset_eq
      setInitialValues_eq set_isDirty_eq Let_def data_def)

lemma hasErrors_processing:
  "hasErrors pg (obj\<lparr>processing := b\<rparr>) = hasErrors pg obj"
  by (simp add: hasErrors_def)

lemma withOptions_eq:
  "withOptions opts obj =
     obj\<lparr>options :=
       \<lparr>bag = (case opt_bag opts of None \<Rightarrow> ''default'' | Some b \<Rightarrow> b),
        resetOnSuccess = (case opt_resetOnSuccess opts of None \<Rightarrow> True | Some b \<Rightarrow> b),
        setInitialOnSuccess =
          (case opt_setInitialOnSuccess opts of None \<Rightarrow> False | Some b \<Rightarrow> b)\<rparr>\<rparr>"
  by (simp add: withOptions_def proxy_set_new_reserved reserved_slots Let_def
      split: option.splits)

section \<open>What merge leaves in the target\<close>

lemma map_of_merge:
  "distinct (map fst b) \<Longrightarrow> map_of (merge a b) = map_of a ++ map_of b"
proof (induction b arbitrary: a)
  case Nil
  then show ?case by (simp add: merge_def)
next
  case (Cons p b)
  obtain key v where p: "p = (key, v)" by (cases p)
  from Cons.prems have fresh: "key \<notin> fst ` set b" and d: "distinct (map fst b)"
    by (simp_all add: p)
  have "map_of (merge a (p # b)) = map_of (merge (AList.update key v a) b)"
    by (simp add: merge_def p)
  also have "\<dots> = map_of (AList.update key v a) ++ map_of b"
    by (simp add: Cons.IH [OF d])
  also have "\<dots> = map_of a ++ map_of (p # b)"
  proof (rule ext)
    fix k
    from fresh have "map_of b key = None" by (simp add: map_of_eq_None_iff)
    then show "(map_of (AList.update key v a) ++ map_of b) k = (map_of a ++ map_of (p # b)) k"
      by (cases "k = key") (simp_all add: p map_add_def update_conv split: option.splits)
  qed
  finally show ?case .
qed

lemma keys_merge: "fst ` set (merge a b) = fst ` set a \<union> fst ` set b"
proof (induction b arbitrary: a)
  case Nil
  then show ?case by (simp add: merge_def)
next
  case (Cons p b)
  obtain key v where p: "p = (key, v)" by (cases p)
  have "merge a (p # b) = merge (AList.update key v a) b"
    by (simp add: merge_def p)
  then show ?case
    using Cons.IH [of "AList.update key v a"] by (auto simp: p dom_update)
qed

lemma distinct_merge: "distinct (map fst a) \<Longrightarrow> distinct (map fst (merge a b))"
proof (induction b arbitrary: a)
  case Nil
  then show ?case by (simp add: merge_def)
next
  case (Cons p b)
  obtain key v where p: "p = (key, v)" by (cases p)
  have "merge a (p # b) = merge (AList.update key v a) b"
    by (simp add: merge_def p)
  then show ?case
    using Cons.IH [of "AList.update key v a"] Cons.prems by (simp add: distinct_update)
qed

lemma merge_restores:
  assumes "distinct (map fst b)"
  shows "list_all (\<lambda>(key, v). get_prop (merge a b) key = v) b"
proof -
  have "get_prop (merge a b) key = v" if "(key, v) \<in> set b" for key v
  proof -
    from that assms have "map_of b key = Some v" by simp
    then show ?thesis by (simp add: get_prop_def map_of_merge [OF assms])
  qed
  then show ?thesis by (auto simp: list_all_iff)
qed

section \<open>Forms that withData returns are well formed\<close>

lemma withData_loop_None:
  "withData_loop d obj = (None, obj') \<Longrightarrow>
     list_all (\<lambda>key. key \<notin> set reservedFieldNames) (map fst d) \<and> initial obj' = initial obj"
proof (induction d arbitrary: obj)
  case Nil
  then show ?case by simp
next
  case (Cons p d)
  obtain key v where p: "p = (key, v)" by (cases p)
  from Cons.prems have ok: "key \<notin> set reservedFieldNames"
    and rest: "withData_loop d (set_field key v obj) = (None, obj')"
    by (simp_all add: p guardAgainstReservedFieldName_def split: if_splits)
  from Cons.IH [OF rest] ok show ?case by (simp add: p set_field_eq)
qed

lemma withData_wf:
  assumes "withData d obj = (None, obj')"
  shows "wf_form obj'"
proof -
  define dat where "dat =
    (case d of
       Names elements \<Rightarrow> fold (\<lambda>element carry. AList.update element (JStr []) carry) elements []
     | Values vals \<Rightarrow> vals)"
  define obj3 where "obj3 = set_successful False (set_processing False (setInitialValues dat obj))"
  from assms obtain obj4 where loop: "withData_loop dat obj3 = (None, obj4)"
    and res: "obj' = set_isDirty False obj4"
    by (auto simp: withData_def Let_def dat_def obj3_def split: prod.splits option.splits)
  from withData_loop_None [OF loop]
  have keys: "list_all (\<lambda>key. key \<notin> set reservedFieldNames) (map fst dat)"
    and ini: "initial obj4 = initial obj3" by simp_all
  have ini3: "initial obj3 = merge [] dat"
    by (simp add: obj3_def set_successful_eq set_processing_eq setInitialValues_eq)
  have "distinct (map fst (merge [] dat))" by (rule distinct_merge) simp
  moreover have "fst ` set (merge [] dat) = fst ` set dat" by (simp add: keys_merge)
  ultimately show ?thesis
    using keys by (simp add: wf_form_def res set_isDirty_eq ini ini3 list_all_iff)
qed

lemma create_example_form:
  "create (Values [(''name'', JStr ''Ada''), (''avatar'', JNull)]) = (None, example_form)"
  by (simp add: create_def withData_def new_InertiaForm_def example_form_def
      setInitialValues_eq merge_def set_processing_eq set_successful_eq set_isDirty_eq
      set_field_eq guardAgainstReservedFieldName_def reservedFieldNames_def get_prop_def
      Let_def)

lemma wf_example_world: "wf_form example_world"
  by (simp add: wf_form_def example_world_def reservedFieldNames_def)

section \<open>Dirty tracking\<close>

lemma field_writes_keep_dirty: "isDirty obj \<Longrightarrow> isDirty (field_writes ws obj)"
proof (induction ws arbitrary: obj)
  case Nil
  then show ?case by (simp add: field_writes_def)
next
  case (Cons p ws)
  obtain k x where p: "p = (k, x)" by (cases p)
  have "isDirty (set_field k x obj)"
    using Cons.prems by (simp add: set_field_eq)
  then have "isDirty (field_writes ws (set_field k x obj))"
    by (rule Cons.IH)
  then show ?case by (simp add: field_writes_def p)
qed

text \<open>
  Claim C1.  A write to a field whose name is not reserved leaves \<open>isDirty\<close> true when
  the value written differs from the value \<open>initial\<close> stores for that field, or when
  \<open>isDirty\<close> was true before (a write never clears it); and \<open>isDirty\<close> is still true
  after any further writes \<open>ws\<close> to fields that are not reserved.  Only \<open>reset\<close> and the
  other methods that assign \<open>isDirty = false\<close> clear it.
\<close>

theorem write_sets_isDirty:
  assumes "prop \<notin> set reservedFieldNames"
    and "list_all (\<lambda>(p, v). p \<notin> set reservedFieldNames) ws"
    and "val \<noteq> get_prop (initial obj) prop \<or> isDirty obj"
  shows "isDirty (set_field prop val obj) \<and>
         isDirty (field_writes ws (set_field prop val obj))"
proof -
  have d: "isDirty (set_field prop val obj)"
    using assms(1,3) by (auto simp: set_field_eq)
  from d field_writes_keep_dirty [OF d] show ?thesis by simp
qed

theorem write_sets_isDirty_witness:
  "''name'' \<notin> set reservedFieldNames \<and>
   list_all (\<lambda>(p, v). p \<notin> set reservedFieldNames)
     [(''avatar'', JFile 7), (''name'', JStr ''Ada'')] \<and>
   JStr ''Bob'' \<noteq> get_prop (initial example_form) ''name'' \<and>
   \<not> isDirty example_form \<and>
   isDirty (set_field ''name'' (JStr ''Bob'') example_form) \<and>
   isDirty (field_writes [(''avatar'', JFile 7), (''name'', JStr ''Ada'')]
             (set_field ''name'' (JStr ''Bob'') example_form))"
  using write_sets_isDirty [of "''name''" "[(''avatar'', JFile 7), (''name'', JStr ''Ada'')]"
      "JStr ''Bob''" example_form]
  by (simp add: reservedFieldNames_def example_form_def get_prop_def)

section \<open>File detection\<close>





text \<open>
  Where it throws: the field \<open>a\<close> of \<open>shadowing_form\<close> holds an object with a property
  \<open>hasOwnProperty\<close> of its own, and a file.
\<close>

lemma hasFiles_shadowing_form: "hasFiles shadowing_form = Inl TypeError"
  by (simp add: hasFiles_def shadowing_form_def get_prop_def)



section \<open>Options\<close>

text \<open>
  Claim C10.  \<open>withOptions\<close> replaces the options by the defaults (bag \<open>default\<close>,
  \<open>resetOnSuccess\<close> true, \<open>setInitialOnSuccess\<close> false) overridden by the keys present in
  its argument, and changes nothing else; the options an earlier call had set are
  discarded, not merged.
\<close>

theorem withOptions_reinitializes:
  "withOptions opts obj =
     obj\<lparr>options :=
       \<lparr>bag = (case opt_bag opts of None \<Rightarrow> ''default'' | Some b \<Rightarrow> b),
        resetOnSuccess = (case opt_resetOnSuccess opts of None \<Rightarrow> True | Some b \<Rightarrow> b),
        setInitialOnSuccess =
          (case opt_setInitialOnSuccess opts of None \<Rightarrow> False | Some b \<Rightarrow> b)\<rparr>\<rparr> \<and>
   withOptions opts (withOptions earlier obj) = withOptions opts obj"
  by (simp add: withOptions_eq)

theorem withOptions_reinitializes_witness:
  "options
     (withOptions
        \<lparr>opt_bag = None, opt_resetOnSuccess = Some False, opt_setInitialOnSuccess = None\<rparr>
        (withOptions
           \<lparr>opt_bag = Some ''login'', opt_resetOnSuccess = None,
            opt_setInitialOnSuccess = Some True\<rparr>
           example_form)) =
   \<lparr>bag = ''default'', resetOnSuccess = False, setInitialOnSuccess = False\<rparr>"
  using withOptions_reinitializes [of
      "\<lparr>opt_bag = None, opt_resetOnSuccess = Some False, opt_setInitialOnSuccess = None\<rparr>"
      example_form
      "\<lparr>opt_bag = Some ''login'', opt_resetOnSuccess = None,
        opt_setInitialOnSuccess = Some True\<rparr>"]
  by simp

section \<open>Submission\<close>

text \<open>
  Claim C5.  \<open>submit\<close> with a request type other than get, post, put, patch and delete
  throws the configuration error and leaves the whole state as it was: \<open>processing\<close>
  and \<open>successful\<close> are not assigned, nothing is handed to the CAPTCHA client and no
  call is made on the navigation client.
\<close>

theorem submit_invalid_request_type:
  "requestType \<notin> set requestTypes \<Longrightarrow>
     submit requestType url w = (Some (InvalidRequestType requestType), w)"
  by (simp add: submit_def validateRequestType_def)

theorem submit_invalid_request_type_witness:
  "''head'' \<notin> set requestTypes \<and>
   submit ''head'' ''/users'' example_world =
     (Some (InvalidRequestType ''head''), example_world)"
  using submit_invalid_request_type [of "''head''" "''/users''" example_world]
  by (simp add: requestTypes_def)

lemma submit_initial: "initial (snd (submit requestType url w)) = initial w"
  by (simp add: submit_def set_processing_eq set_successful_eq Let_def split: option.splits)

lemma token_resolved_initial: "initial (snd (token_resolved token w)) = initial w"
  by (simp add: token_resolved_def send_def Let_def split: list.splits sum.splits)

lemma submit_onSuccess_no_callback:
  "snd (submit_onSuccess None pg w) = handle_response pg w"
  "snd (submit_onSuccess (Some None) pg w) = handle_response pg w"
  by (simp_all add: submit_onSuccess_def Let_def)

text \<open>
  Claim C3.  When the round trip completes and the page has no bag, or an empty bag,
  under the configured bag name, the form's completion handling leaves \<open>successful\<close>
  true, \<open>processing\<close> false and \<open>recentlySuccessful\<close> true, whatever the options.  With
  \<open>resetOnSuccess\<close> set (the default) it also leaves \<open>isDirty\<close> false and \<open>initial\<close> as
  it was, and, on a form whose \<open>initial\<close> passed the guard of \<open>withData\<close>, every field of
  \<open>initial\<close> holding its initial value again.  The restoration is the work of \<open>merge\<close>,
  which is modelled from the spec.
\<close>

theorem successful_response_resets:
  assumes "\<not> hasErrors pg w"
  shows "successful (handle_response pg w) \<and>
         \<not> processing (handle_response pg w) \<and>
         recentlySuccessful (handle_response pg w) \<and>
         (resetOnSuccess (options w) \<longrightarrow>
            \<not> isDirty (handle_response pg w) \<and>
            initial (handle_response pg w) = initial w \<and>
            (wf_form w \<longrightarrow>
               list_all (\<lambda>(key, v). get_prop (field_values (handle_response pg w)) key = v)
                 (initial w)))"
proof -
  have flags: "successful (handle_response pg w) \<and> \<not> processing (handle_response pg w) \<and>
      recentlySuccessful (handle_response pg w)"
    using assms
    by (simp add: handle_response_def set_processing_eq onSuccess_eq hasErrors_processing
        Let_def)
  have restore: "\<not> isDirty (handle_response pg w) \<and>
      initial (handle_response pg w) = initial w \<and>
      (wf_form w \<longrightarrow>
         list_all (\<lambda>(key, v). get_prop (field_values (handle_response pg w)) key = v)
           (initial w))"
    if r: "resetOnSuccess (options w)"
  proof -
    have eq: "handle_response pg w =
          w\<lparr>processing := False, successful := True, recentlySuccessful := True,
            timers := timers w @ [(2000, ClearRecentlySuccessful)],
            field_values := merge (field_values w) (initial w), isDirty := False\<rparr>"
      using assms r
      by (simp add: handle_response_def set_processing_eq onSuccess_eq hasErrors_processing)
    have "list_all (\<lambda>(key, v). get_prop (merge (field_values w) (initial w)) key = v)
           (initial w)" if "wf_form w"
      using that by (intro merge_restores) (simp add: wf_form_def)
    then show ?thesis by (simp add: eq)
  qed
  from flags restore show ?thesis by blast
qed

theorem successful_response_resets_witness:
  "wf_form example_world \<and> \<not> hasErrors empty_bag_page example_world \<and>
   resetOnSuccess (options example_world) \<and>
   successful (handle_response empty_bag_page example_world) \<and>
   \<not> processing (handle_response empty_bag_page example_world) \<and>
   recentlySuccessful (handle_response empty_bag_page example_world) \<and>
   \<not> isDirty (handle_response empty_bag_page example_world) \<and>
   get_prop (field_values example_world) ''name'' = JStr ''Bob'' \<and>
   get_prop (field_values (handle_response empty_bag_page example_world)) ''name'' =
     JStr ''Ada'' \<and>
   \<not> hasErrors empty_bag_page keeping_world \<and>
   \<not> resetOnSuccess (options keeping_world) \<and>
   successful (handle_response empty_bag_page keeping_world) \<and>
   \<not> processing (handle_response empty_bag_page keeping_world) \<and>
   recentlySuccessful (handle_response empty_bag_page keeping_world)"
proof -
  have h: "\<not> hasErrors empty_bag_page example_world"
    by (simp add: example_world_def empty_bag_page_def hasErrors_def)
  have r: "resetOnSuccess (options example_world)"
    by (simp add: example_world_def)
  have b: "get_prop (field_values example_world) ''name'' = JStr ''Bob''"
    by (simp add: example_world_def get_prop_def)
  have i: "initial example_world = [(''name'', JStr ''Ada''), (''avatar'', JNull)]"
    by (simp add: example_world_def)
  have h': "\<not> hasErrors empty_bag_page keeping_world"
    by (simp add: keeping_world_def example_world_def empty_bag_page_def hasErrors_def)
  have r': "\<not> resetOnSuccess (options keeping_world)"
    by (simp add: keeping_world_def)
  from successful_response_resets [OF h] successful_response_resets [OF h']
    wf_example_world h r b h' r'
  show ?thesis by (simp add: i)
qed

text \<open>
  Claim C4.  When the round trip completes and the page has a non-empty bag under the
  configured bag name, the form's completion handling assigns \<open>processing\<close>,
  \<open>successful\<close> and \<open>recentlySuccessful\<close> false and nothing else: the field values,
  \<open>initial\<close> and \<open>isDirty\<close> are as before.
\<close>

theorem failed_response_changes_flags_only:
  assumes "hasErrors pg w"
  shows "handle_response pg w =
           w\<lparr>processing := False, successful := False, recentlySuccessful := False\<rparr> \<and>
         \<not> successful (handle_response pg w) \<and>
         \<not> recentlySuccessful (handle_response pg w) \<and>
         \<not> processing (handle_response pg w) \<and>
         field_values (handle_response pg w) = field_values w \<and>
         initial (handle_response pg w) = initial w \<and>
         isDirty (handle_response pg w) = isDirty w"
  using assms
  by (simp add: handle_response_def set_processing_eq onFail_eq hasErrors_processing)

theorem failed_response_changes_flags_only_witness:
  "hasErrors invalid_email_page example_world \<and>
   handle_response invalid_email_page example_world =
     example_world\<lparr>processing := False, successful := False, recentlySuccessful := False\<rparr> \<and>
   field_values (handle_response invalid_email_page example_world) =
     [(''name'', JStr ''Bob''), (''avatar'', JNull)] \<and>
   isDirty (handle_response invalid_email_page example_world)"
  using failed_response_changes_flags_only [of invalid_email_page example_world]
  by (simp add: example_world_def invalid_email_page_def hasErrors_def)

text \<open>
  Claim C9.  \<open>onSuccess\<close> schedules exactly one timer, with a delay of 2000 ms, whose
  callback assigns \<open>recentlySuccessful = false\<close> and nothing else; the completion
  handling schedules it when the page has no errors and schedules nothing when it has.
  The timer runs without any call on the form.
\<close>

theorem onSuccess_schedules_one_timer:
  "timers (onSuccess w) = timers w @ [(2000, ClearRecentlySuccessful)] \<and>
   timers (handle_response pg w) =
     (if hasErrors pg w then timers w else timers w @ [(2000, ClearRecentlySuccessful)]) \<and>
   run_timer ClearRecentlySuccessful w' = w'\<lparr>recentlySuccessful := False\<rparr>"
  by (simp add: handle_response_def set_processing_eq onSuccess_eq onFail_eq Let_def
      set_recentlySuccessful_eq hasErrors_processing)

theorem onSuccess_schedules_one_timer_witness:
  "timers (handle_response empty_bag_page example_world) = [(2000, ClearRecentlySuccessful)] \<and>
   recentlySuccessful (handle_response empty_bag_page example_world) \<and>
   \<not> recentlySuccessful
       (run_timer ClearRecentlySuccessful (handle_response empty_bag_page example_world))"
proof -
  have h: "\<not> hasErrors empty_bag_page example_world"
    by (simp add: example_world_def empty_bag_page_def hasErrors_def)
  have t: "timers example_world = []"
    by (simp add: example_world_def)
  have s: "recentlySuccessful (handle_response empty_bag_page example_world)"
    using h by (simp add: handle_response_def set_processing_eq onSuccess_eq
        hasErrors_processing Let_def)
  from onSuccess_schedules_one_timer [of example_world empty_bag_page
      "handle_response empty_bag_page example_world"] h t s
  show ?thesis by simp
qed

section \<open>Reset\<close>

text \<open>
  Claim C6.  \<open>reset()\<close> leaves every field of \<open>initial\<close> holding the value \<open>initial\<close>
  stores for it, leaves \<open>initial\<close> as it was and leaves \<open>isDirty\<close> false.  The form is
  one whose \<open>initial\<close> passed the guard of \<open>withData\<close>; \<open>merge\<close> is modelled from the
  spec.
\<close>

theorem reset_restores_initial:
  assumes "wf_form obj"
  shows "\<not> isDirty (reset obj) \<and> initial (reset obj) = initial obj \<and>
         list_all (\<lambda>(key, v). get_prop (field_values (reset obj)) key = v) (initial obj)"
proof -
  from assms have d: "distinct (map fst (initial obj))" by (simp add: wf_form_def)
  show ?thesis using merge_restores [OF d, of "field_values obj"] by (simp add: reset_eq)
qed

theorem reset_restores_initial_witness:
  "wf_form example_world \<and> isDirty example_world \<and>
   \<not> isDirty (reset example_world) \<and>
   field_values (reset example_world) = [(''name'', JStr ''Ada''), (''avatar'', JNull)]"
proof -
  have f: "field_values (reset example_world) = [(''name'', JStr ''Ada''), (''avatar'', JNull)]"
    by (simp add: reset_eq example_world_def merge_def)
  have d: "isDirty example_world"
    by (simp add: example_world_def)
  from reset_restores_initial [OF wf_example_world] wf_example_world f d
  show ?thesis by simp
qed

section \<open>Serialization\<close>

lemma map_of_fold_update:
  "map_of (fold (\<lambda>p d. AList.update p (g p) d) ks d0) k =
     (if k \<in> set ks then Some (g k) else map_of d0 k)"
  by (induction ks arbitrary: d0) (simp_all add: update_conv)

lemma map_of_data:
  "map_of (data obj) k =
     (if k \<in> fst ` set (initial obj) then Some (get_prop (field_values obj) k)
      else if k = ''_error_bag'' then Some (JStr (bag (options obj))) else None)"
  by (simp add: data_def map_of_fold_update)

lemma keys_data: "fst ` set (data obj) = insert ''_error_bag'' (fst ` set (initial obj))"
proof -
  have "fst ` set (data obj) = dom (map_of (data obj))"
    by (simp add: dom_map_of_conv_image_fst)
  also have "\<dots> = insert ''_error_bag'' (fst ` set (initial obj))"
    by (auto simp: dom_def map_of_data split: if_splits)
  finally show ?thesis .
qed

text \<open>
  Claim C7, as the code has it.  The keys of \<open>data()\<close> are the field names of \<open>initial\<close>
  and the marker \<open>_error_bag\<close>, and every field of \<open>initial\<close> is mapped to its current
  value.  The marker carries the configured bag name when \<open>initial\<close> has no field named
  \<open>_error_bag\<close>: line 99 writes the marker first and the loop of lines 102-104 then
  writes the fields, a field of that name included.
\<close>

theorem data_fields_and_marker:
  "fst ` set (data obj) = insert ''_error_bag'' (fst ` set (initial obj)) \<and>
   list_all (\<lambda>key. get_prop (data obj) key = get_prop (field_values obj) key)
     (map fst (initial obj)) \<and>
   (''_error_bag'' \<notin> fst ` set (initial obj) \<longrightarrow>
      get_prop (data obj) ''_error_bag'' = JStr (bag (options obj)))"
  by (simp add: keys_data list_all_iff get_prop_def map_of_data)

theorem data_fields_and_marker_witness:
  "''_error_bag'' \<notin> fst ` set (initial example_world) \<and>
   fst ` set (data example_world) = {''_error_bag'', ''name'', ''avatar''} \<and>
   get_prop (data example_world) ''name'' = JStr ''Bob'' \<and>
   get_prop (data example_world) ''avatar'' = JNull \<and>
   get_prop (data example_world) ''_error_bag'' = JStr ''default''"
  using data_fields_and_marker [of example_world]
  by (simp add: example_world_def get_prop_def)

text \<open>
  Claim C7 as stated fails on the form that \<open>create({_error_bag: 'mine'})\<close> returns
  (the name is not reserved): \<open>data()\<close> maps \<open>_error_bag\<close> to the field's value
  \<open>'mine'\<close>, not to the configured bag name \<open>'default'\<close>.
\<close>

theorem data_marker_overwritten:
  "create (Values [(''_error_bag'', JStr ''mine'')]) = (None, marker_form) \<and>
   get_prop (data marker_form) ''_error_bag'' = JStr ''mine'' \<and>
   get_prop (data marker_form) ''_error_bag'' \<noteq> JStr (bag (options marker_form))"
  by (simp add: create_def withData_def new_InertiaForm_def marker_form_def
      setInitialValues_eq merge_def set_processing_eq set_successful_eq set_isDirty_eq
      set_field_eq guardAgainstReservedFieldName_def reservedFieldNames_def get_prop_def
      Let_def data_def)

section \<open>Error accessors\<close>

lemma fold_append_concat: "fold (\<lambda>b a. a @ b) xss acc = acc @ concat xss"
  by (induction xss arbitrary: acc) simp_all

text \<open>
  \<open>errors()\<close> without a field is the messages of the configured bag, field after field
  in the bag's iteration order, and empty when the page has no such bag.
\<close>

lemma errors_all:
  "errors pg obj None =
     (case map_of (errorBags pg) (bag (options obj)) of
        None \<Rightarrow> []
      | Some b \<Rightarrow> concat (map snd b))"
  by (simp add: errors_def hasErrors_def fold_append_concat split: option.splits)

text \<open>
  \<open>errors(field)\<close> is the field's messages when their first one is not the empty
  string, and empty otherwise.
\<close>

lemma errors_field:
  "errors pg obj (Some f) =
     (case map_of (errorBags pg) (bag (options obj)) of
        None \<Rightarrow> []
      | Some b \<Rightarrow>
          (case map_of b f of
             None \<Rightarrow> []
           | Some [] \<Rightarrow> []
           | Some (m # ms) \<Rightarrow> if m = [] then [] else m # ms))"
proof (cases "map_of (errorBags pg) (bag (options obj))")
  case None
  then show ?thesis by (simp add: errors_def error_def hasErrors_def)
next
  case (Some b)
  note bag = this
  show ?thesis
  proof (cases "map_of b f")
    case None
    then show ?thesis using bag by (simp add: errors_def error_def hasErrors_def)
  next
    case (Some ms)
    then have "b \<noteq> []" by auto
    then show ?thesis using Some bag
      by (cases ms) (simp_all add: errors_def error_def hasErrors_def)
  qed
qed

text \<open>
  Claim C8, on the page whose bag \<open>default\<close> is \<open>{email: ['', 'Invalid']}\<close>: the bag
  holds a non-empty sequence for \<open>email\<close>, and \<open>errors('email')\<close> is empty, because
  line 254 tests the truthiness of the first message.  With \<open>{email: ['Invalid']}\<close> it is
  the sequence.
\<close>

theorem errors_drops_blank_first_message:
  "map_of (errorBags blank_message_page) (bag (options example_form)) =
     Some [(''email'', ['''', ''Invalid''])] \<and>
   errors blank_message_page example_form (Some ''email'') = [] \<and>
   errors invalid_email_page example_form (Some ''email'') = [''Invalid'']"
  by (simp add: errors_field blank_message_page_def invalid_email_page_def example_form_def)

end
